theory Spec2Isabelle
  imports Main
begin

section \<open>Values and exceptions\<close>

text \<open>
  The module \<^verbatim>\<open>ratlib/api/http.py\<close> is dynamically typed. Two families of Python
  values reach it: JSON documents (request bodies, decoded responses, the fields of an
  error) and the arguments of \<^verbatim>\<open>urljoin\<close>, which are strings or sequences of
  strings. Python's \<^verbatim>\<open>None\<close> is \<open>JNull\<close>; a dict is an association list read with
  \<open>map_of\<close>. Floating-point numbers are left out of the model.
\<close>

datatype json =
    JNull
  | JBool bool
  | JNum int
  | JStr string
  | JArr "json list"
  | JObj "(string \<times> json) list"

datatype part = Str string | Seq "string list"

text \<open>
  The five exception classes of the module, in the order of their declarations, and the
  base class each one names in its \<^verbatim>\<open>class\<close> statement (\<open>None\<close> for the builtin
  \<^verbatim>\<open>Exception\<close>).
\<close>

datatype error_kind = APIError | BadResponseError | BadJSONError | UnsupportedMethodError | HTTPError

fun base :: "error_kind \<Rightarrow> error_kind option" where
  "base APIError = None"
| "base BadResponseError = Some APIError"
| "base BadJSONError = Some BadResponseError"
| "base UnsupportedMethodError = Some APIError"
| "base HTTPError = Some APIError"

fun rank :: "error_kind \<Rightarrow> nat" where
  "rank APIError = 0"
| "rank BadResponseError = 1"
| "rank BadJSONError = 2"
| "rank UnsupportedMethodError = 1"
| "rank HTTPError = 1"

text \<open>The method resolution order of a class: the class, then the order of its base.\<close>

function mro :: "error_kind \<Rightarrow> error_kind list" where
  "mro k = k # (case base k of None \<Rightarrow> [] | Some b \<Rightarrow> mro b)"
  by pat_completeness auto
termination
proof (relation "measure rank")
  show "wf (measure rank)" by simp
next
  fix k b
  assume "base k = Some b"
  then show "(b, k) \<in> measure rank" by (cases k) auto
qed

declare mro.simps [simp del]

text \<open>
  \<^verbatim>\<open>except handler:\<close> catches an exception of class \<open>k\<close> when \<open>handler\<close> is in the
  method resolution order of \<open>k\<close>.
\<close>

definition catches :: "error_kind \<Rightarrow> error_kind \<Rightarrow> bool" where
  "catches handler k = (handler \<in> set (mro k))"

text \<open>
  What a call can raise: an instance of one of the five classes with its attributes
  \<^verbatim>\<open>code\<close>, \<^verbatim>\<open>details\<close> and \<^verbatim>\<open>json\<close> (set by \<^verbatim>\<open>APIError.__init__\<close>), a builtin
  exception of the interpreter, or an exception of the transport that no handler of the
  module catches.
\<close>

datatype exn =
    ApiExn error_kind json json json
  | TypeError
  | AttributeError
  | KeyError
  | IndexError
  | Foreign string

section \<open>urljoin\<close>

text \<open>\<^verbatim>\<open>not part\<close>: a string or a sequence is false exactly when it is empty.\<close>

fun truthy :: "part \<Rightarrow> bool" where
  "truthy (Str s) = (s \<noteq> [])"
| "truthy (Seq xs) = (xs \<noteq> [])"

text \<open>
  \<^verbatim>\<open>prev[-1]\<close>, \<^verbatim>\<open>part[0]\<close> and \<^verbatim>\<open>part[1:]\<close>. The generator reads the first two only
  on values that are not empty (an empty \<^verbatim>\<open>part\<close> is skipped and an empty
  \<^verbatim>\<open>prev\<close> takes the first branch), so no read is out of range. An item of a string
  is a string of one character.
\<close>

fun last_item :: "part \<Rightarrow> string" where
  "last_item (Str s) = [last s]"
| "last_item (Seq xs) = last xs"

fun first_item :: "part \<Rightarrow> string" where
  "first_item (Str s) = [hd s]"
| "first_item (Seq xs) = hd xs"

fun rest :: "part \<Rightarrow> part" where
  "rest (Str s) = Str (tl s)"
| "rest (Seq xs) = Seq (tl xs)"

text \<open>
  The generator \<^verbatim>\<open>_gen\<close>: the list of the values it yields, given the current value of
  \<^verbatim>\<open>prev\<close> (\<open>None\<close> before the first iteration) and the parts still to visit.
\<close>

fun gen :: "part option \<Rightarrow> part list \<Rightarrow> part list" where
  "gen prev [] = []"
| "gen prev (part # parts) =
     (if \<not> truthy part then gen prev parts
      else (case prev of
          None \<Rightarrow> part # gen (Some part) parts
        | Some p \<Rightarrow>
            if \<not> truthy p then part # gen (Some part) parts
            else if (last_item p = ''/'') \<noteq> (first_item part = ''/'') then
              part # gen (Some part) parts
            else if first_item part = ''/'' then
              rest part # gen (Some (rest part)) parts
            else Str ''/'' # part # gen (Some part) parts))"

text \<open>\<^verbatim>\<open>"".join(...)\<close> raises \<^verbatim>\<open>TypeError\<close> on an item that is not a string.\<close>

fun join_str :: "part list \<Rightarrow> exn + string" where
  "join_str [] = Inr []"
| "join_str (Str s # ps) = (case join_str ps of Inl e \<Rightarrow> Inl e | Inr t \<Rightarrow> Inr (s @ t))"
| "join_str (Seq xs # ps) = Inl TypeError"

definition urljoin :: "part list \<Rightarrow> exn + string" where
  "urljoin parts = join_str (gen None parts)"

subsection \<open>The joiner as the specification words it\<close>

text \<open>
  The specification's algorithm over string fragments: an empty fragment is skipped and
  does not count as the previous one; the first fragment that is not empty is emitted as
  it is; each later one is compared with the previous fragment at the junction.
\<close>

definition ends_slash :: "string \<Rightarrow> bool" where
  "ends_slash s = (s \<noteq> [] \<and> last s = CHR ''/'')"

definition starts_slash :: "string \<Rightarrow> bool" where
  "starts_slash s = (s \<noteq> [] \<and> hd s = CHR ''/'')"

definition junction :: "string \<Rightarrow> string \<Rightarrow> string" where
  "junction p q =
     (if ends_slash p \<noteq> starts_slash q then q
      else if starts_slash q then tl q
      else ''/'' @ q)"

fun spec_join :: "string option \<Rightarrow> string list \<Rightarrow> string" where
  "spec_join prev [] = []"
| "spec_join prev (f # fs) =
     (if f = [] then spec_join prev fs
      else (case prev of None \<Rightarrow> f | Some p \<Rightarrow> junction p f) @ spec_join (Some f) fs)"

definition spec_urljoin :: "string list \<Rightarrow> string" where
  "spec_urljoin fs = spec_join None fs"

text \<open>\<^verbatim>\<open>"/".join(fs)\<close>: the fragments with one slash between each consecutive pair.\<close>

fun slash_join :: "string list \<Rightarrow> string" where
  "slash_join [] = []"
| "slash_join [f] = f"
| "slash_join (f # g # fs) = f @ ''/'' @ slash_join (g # fs)"

text \<open>No fragment next to a junction carries a slash on that side.\<close>

fun junction_free :: "string list \<Rightarrow> bool" where
  "junction_free (f # g # fs) = (\<not> ends_slash f \<and> \<not> starts_slash g \<and> junction_free (g # fs))"
| "junction_free fs = True"

definition nonempty :: "string list \<Rightarrow> string list" where
  "nonempty fs = filter (\<lambda>f. f \<noteq> []) fs"

section \<open>The transport\<close>

text \<open>
  The HTTP client library is a collaborator outside the module, so it is a parameter of
  the model. The module reaches it in four ways: the attributes \<^verbatim>\<open>GET\<close>,
  \<^verbatim>\<open>PUT\<close> and \<^verbatim>\<open>POST\<close> stored in \<^verbatim>\<open>request_methods\<close>, the function
  \<^verbatim>\<open>requests.request\<close>, the methods and attributes of the response object, and the
  table \<^verbatim>\<open>requests.status_codes\<close>.

  A transport call records which entry point is invoked, its positional arguments and
  its keyword arguments: \<open>Helper name url kw\<close> is \<^verbatim>\<open>request_methods[name](url, **kw)\<close>
  and \<open>Request m url kw\<close> is \<^verbatim>\<open>requests.request(m, url, **kw)\<close>.
\<close>

type_synonym kwargs = "(string \<times> json) list"

datatype transport_call =
    Helper string string kwargs
  | Request string string kwargs

text \<open>
  A response object. The module reads \<^verbatim>\<open>status_code\<close> (lines 102 and 105), calls
  \<^verbatim>\<open>json()\<close> (line 109; \<open>None\<close> when it raises \<^verbatim>\<open>ValueError\<close>) and reads an
  attribute named \<^verbatim>\<open>status\<close> (line 103). The specification's response has a status
  code, a body and its decoded JSON, and no attribute \<^verbatim>\<open>status\<close>; the field
  \<open>status\<close> is \<open>None\<close> for such a response, and reading it raises
  \<^verbatim>\<open>AttributeError\<close>.
\<close>

record response =
  status_code :: int
  status :: "int option"
  json_body :: "json option"

text \<open>
  What a transport call does: it returns a response, raises
  \<^verbatim>\<open>requests.exceptions.HTTPError\<close> carrying a response, raises another
  \<^verbatim>\<open>RequestException\<close>, or raises an exception outside that hierarchy.
\<close>

datatype outcome =
    Returned response
  | HTTPErrorExc response
  | RequestExceptionExc
  | OtherExc string

record transport =
  perform :: "transport_call \<Rightarrow> outcome"
  status_codes :: "int \<Rightarrow> string list option"

text \<open>
  Modelled from the spec: \<^verbatim>\<open>response.raise_for_status()\<close> belongs to the client
  library. "Any 4xx/5xx status is a failure": it raises the library's
  \<^verbatim>\<open>HTTPError\<close>, carrying the response, exactly for those statuses.
\<close>

definition raise_for_status :: "response \<Rightarrow> bool" where
  "raise_for_status r = (400 \<le> status_code r \<and> status_code r < 600)"

text \<open>\<^verbatim>\<open>requests.status_codes[c][0]\<close>, with the two ways the subscripts can fail.\<close>

definition reason :: "transport \<Rightarrow> int \<Rightarrow> exn + json" where
  "reason T c =
     (case status_codes T c of
        None \<Rightarrow> Inl KeyError
      | Some [] \<Rightarrow> Inl IndexError
      | Some (phrase # _) \<Rightarrow> Inr (JStr phrase))"

section \<open>call\<close>


definition upper_char :: "char \<Rightarrow> char" where
  "upper_char c =
     (case map_of (zip ''abcdefghijklmnopqrstuvwxyz'' ''ABCDEFGHIJKLMNOPQRSTUVWXYZ'') c of
        None \<Rightarrow> c
      | Some u \<Rightarrow> u)"

definition upper :: "string \<Rightarrow> string" where
  "upper s = map upper_char s"

text \<open>
  \<^verbatim>\<open>request_methods = {attr: getattr(requests, attr) for attr in "GET PUT POST".split(" ")}\<close>
\<close>

definition request_methods :: "string \<Rightarrow> (string \<Rightarrow> kwargs \<Rightarrow> transport_call) option" where
  "request_methods = map_of (map (\<lambda>attr. (attr, Helper attr)) [''GET'', ''PUT'', ''POST''])"

text \<open>
  Lines 96 to 99: the transport call that \<^verbatim>\<open>call\<close> makes. Both branches pass the
  URI and the single keyword argument \<^verbatim>\<open>json=data\<close>; the parameter \<open>kw\<close>, the
  \<^verbatim>\<open>**kwargs\<close> of \<^verbatim>\<open>call\<close>, is used by neither.
\<close>

definition dispatch :: "string \<Rightarrow> string \<Rightarrow> (string \<times> json) list \<Rightarrow> kwargs \<Rightarrow> transport_call" where
  "dispatch method uri data kw =
     (case request_methods method of
        Some helper \<Rightarrow> helper uri [(''json'', JObj data)]
      | None \<Rightarrow> Request (upper method) uri [(''json'', JObj data)])"

text \<open>
  The handler \<^verbatim>\<open>except exc.HTTPError as ex\<close> (line 105): the exception it raises for
  the response carried by \<open>ex\<close>.
\<close>

definition on_http_error :: "transport \<Rightarrow> response \<Rightarrow> exn" where
  "on_http_error T r =
     (case reason T (status_code r) of
        Inl e \<Rightarrow> e
      | Inr phrase \<Rightarrow> ApiExn HTTPError (JNum (status_code r)) phrase JNull)"

text \<open>
  The \<^verbatim>\<open>try\<close> statement, lines 95 to 107. \<^verbatim>\<open>not statuses\<close> holds for \<^verbatim>\<open>None\<close> and
  for the empty set. The exception built on line 103 is not one of the transport's, so
  no handler of the statement catches it, nor the \<^verbatim>\<open>AttributeError\<close> or lookup error
  raised while its arguments are evaluated.
\<close>

definition checked_response ::
  "transport \<Rightarrow> string \<Rightarrow> string \<Rightarrow> (string \<times> json) list \<Rightarrow> int set option \<Rightarrow> kwargs \<Rightarrow> exn + response" where
  "checked_response T method uri data statuses kw =
     (case perform T (dispatch method uri data kw) of
        HTTPErrorExc r \<Rightarrow> Inl (on_http_error T r)
      | RequestExceptionExc \<Rightarrow> Inl (ApiExn BadResponseError JNull JNull JNull)
      | OtherExc name \<Rightarrow> Inl (Foreign name)
      | Returned response \<Rightarrow>
          if statuses = None \<or> statuses = Some {} then
            (if raise_for_status response then Inl (on_http_error T response)
             else Inr response)
          else if status_code response \<notin> the statuses then
            (case status response of
               None \<Rightarrow> Inl AttributeError
             | Some s \<Rightarrow>
                 (case reason T s of
                    Inl e \<Rightarrow> Inl e
                  | Inr phrase \<Rightarrow>
                      Inl (ApiExn HTTPError (JNum (status_code response)) phrase JNull)))
          else Inr response)"

subsection \<open>Operations on the decoded JSON\<close>

text \<open>Whether \<open>k\<close> occurs in \<open>s\<close> as a contiguous substring.\<close>

fun substring :: "string \<Rightarrow> string \<Rightarrow> bool" where
  "substring k [] = (k = [])"
| "substring k (c # cs) = (take (length k) (c # cs) = k \<or> substring k cs)"

text \<open>
  \<^verbatim>\<open>k in j\<close>: a key of a dict, an element of a list, a substring of a string, and
  \<^verbatim>\<open>TypeError\<close> on a value that is not a container.
\<close>

fun contains :: "string \<Rightarrow> json \<Rightarrow> exn + bool" where
  "contains k (JObj m) = Inr (map_of m k \<noteq> None)"
| "contains k (JArr xs) = Inr (JStr k \<in> set xs)"
| "contains k (JStr s) = Inr (substring k s)"
| "contains k j = Inl TypeError"

text \<open>\<^verbatim>\<open>j[k]\<close> for a string key \<open>k\<close>.\<close>

fun subscript_key :: "json \<Rightarrow> string \<Rightarrow> exn + json" where
  "subscript_key (JObj m) k = (case map_of m k of None \<Rightarrow> Inl KeyError | Some v \<Rightarrow> Inr v)"
| "subscript_key j k = Inl TypeError"

text \<open>\<^verbatim>\<open>v[0]\<close>. A decoded JSON object has string keys only, so \<^verbatim>\<open>0\<close> is never one.\<close>

fun subscript_zero :: "json \<Rightarrow> exn + json" where
  "subscript_zero (JArr []) = Inl IndexError"
| "subscript_zero (JArr (e # es)) = Inr e"
| "subscript_zero (JStr []) = Inl IndexError"
| "subscript_zero (JStr (c # cs)) = Inr (JStr [c])"
| "subscript_zero (JObj m) = Inl KeyError"
| "subscript_zero j = Inl TypeError"

text \<open>\<^verbatim>\<open>dict.get(k)\<close>: the value stored under \<open>k\<close>, or \<^verbatim>\<open>None\<close>.\<close>

definition dict_get :: "(string \<times> json) list \<Rightarrow> string \<Rightarrow> json" where
  "dict_get m k = (case map_of m k of None \<Rightarrow> JNull | Some v \<Rightarrow> v)"

text \<open>\<^verbatim>\<open>err.get(k)\<close>: only a dict has the method.\<close>

fun get_field :: "json \<Rightarrow> string \<Rightarrow> exn + json" where
  "get_field (JObj m) k = Inr (dict_get m k)"
| "get_field j k = Inl AttributeError"

text \<open>Lines 113 to 118: the classification of the decoded JSON.\<close>

definition classify :: "json \<Rightarrow> exn + json" where
  "classify j =
     (case contains ''errors'' j of
        Inl e \<Rightarrow> Inl e
      | Inr True \<Rightarrow>
          (case subscript_key j ''errors'' of
             Inl e \<Rightarrow> Inl e
           | Inr errors \<Rightarrow>
               (case subscript_zero errors of
                  Inl e \<Rightarrow> Inl e
                | Inr err \<Rightarrow>
                    (case get_field err ''code'' of
                       Inl e \<Rightarrow> Inl e
                     | Inr code \<Rightarrow>
                         (case get_field err ''details'' of
                            Inl e \<Rightarrow> Inl e
                          | Inr details \<Rightarrow> Inl (ApiExn APIError code details j)))))
      | Inr False \<Rightarrow>
          (case contains ''data'' j of
             Inl e \<Rightarrow> Inl e
           | Inr False \<Rightarrow>
               Inl (ApiExn BadResponseError JNull
                      (JStr ''Did not receive a data field in a non-error response.'') j)
           | Inr True \<Rightarrow> Inr j))"

text \<open>
  Lines 91 and 92: a \<^verbatim>\<open>uri\<close> that is not a string is handed to \<^verbatim>\<open>urljoin\<close> as
  its only argument.
\<close>

definition resolve :: "part \<Rightarrow> exn + string" where
  "resolve uri = (case uri of Str s \<Rightarrow> Inr s | Seq xs \<Rightarrow> urljoin [uri])"

text \<open>Line 93, \<^verbatim>\<open>data or {}\<close>: \<^verbatim>\<open>None\<close> and the empty dict are false.\<close>

definition data_or_empty :: "(string \<times> json) list option \<Rightarrow> (string \<times> json) list" where
  "data_or_empty data = (if data = None \<or> data = Some [] then [] else the data)"

text \<open>
  \<^verbatim>\<open>call(method, uri, data=None, statuses=None, **kwargs)\<close>.
  \<^verbatim>\<open>BadJSONError()\<close> takes the defaults of its constructor.
\<close>

definition call ::
  "transport \<Rightarrow> string \<Rightarrow> part \<Rightarrow> (string \<times> json) list option \<Rightarrow> int set option \<Rightarrow> kwargs \<Rightarrow> exn + json" where
  "call T method uri data statuses kw =
     (case resolve uri of
        Inl e \<Rightarrow> Inl e
      | Inr u \<Rightarrow>
          (case checked_response T method u (data_or_empty data) statuses kw of
             Inl e \<Rightarrow> Inl e
           | Inr response \<Rightarrow>
               (case json_body response of
                  None \<Rightarrow>
                    Inl (ApiExn BadJSONError (JStr ''2608'')
                           (JStr ''API didn't return valid JSON.'') JNull)
                | Some j \<Rightarrow> classify j)))"

text \<open>
  The transport call that \<^verbatim>\<open>call\<close> issues when it reaches line 96: the one of
  \<open>dispatch\<close> on the resolved URI and the defaulted body.
\<close>

definition issued ::
  "string \<Rightarrow> part \<Rightarrow> (string \<times> json) list option \<Rightarrow> kwargs \<Rightarrow> exn + transport_call" where
  "issued method uri data kw =
     (case resolve uri of
        Inl e \<Rightarrow> Inl e
      | Inr u \<Rightarrow> Inr (dispatch method u (data_or_empty data) kw))"

subsection \<open>What a transport call puts on the wire\<close>




subsection \<open>Transports used to run the model\<close>

text \<open>A few standard reason phrases, keyed by status code.\<close>

definition phrases :: "int \<Rightarrow> string list option" where
  "phrases = map_of [(200, [''OK'']), (201, [''Created'']), (404, [''Not Found'']),
     (500, [''Internal Server Error''])]"

text \<open>A transport that answers every call with the same response.\<close>

definition canned :: "response \<Rightarrow> transport" where
  "canned r = \<lparr>perform = (\<lambda>c. Returned r), status_codes = phrases\<rparr>"



text \<open>Responses used below: a status, no attribute \<^verbatim>\<open>status\<close>, and a body.\<close>

definition errors_response :: response where
  "errors_response = \<lparr>status_code = 200, status = None,
     json_body = Some (JObj [(''errors'',
       JArr [JObj [(''code'', JStr ''X''), (''details'', JStr ''Y'')]])])\<rparr>"

definition data_response :: response where
  "data_response = \<lparr>status_code = 200, status = None,
     json_body = Some (JObj [(''data'', JObj [(''id'', JNum 7)])])\<rparr>"

definition empty_response :: response where
  "empty_response = \<lparr>status_code = 200, status = None, json_body = Some (JObj [])\<rparr>"

definition html_response :: response where
  "html_response = \<lparr>status_code = 200, status = None, json_body = None\<rparr>"

definition missing_response :: response where
  "missing_response = \<lparr>status_code = 404, status = None, json_body = None\<rparr>"

section \<open>Properties of urljoin\<close>

lemma slash_join_Cons: "slash_join (p # xs) = p @ concat (map (\<lambda>f. ''/'' @ f) xs)"
  by (induction xs arbitrary: p) auto

text \<open>
  With a previous fragment in hand, the generator and the specification's algorithm emit
  the same text as long as no fragment is the bare slash: the generator's \<^verbatim>\<open>prev\<close>
  may be the fragment without its leading slash, which ends as the fragment does.
\<close>

lemma gen_Some_agrees:
  "p \<noteq> [] \<Longrightarrow> q \<noteq> [] \<Longrightarrow> last p = last q \<Longrightarrow> \<forall>f\<in>set fs. f \<noteq> ''/'' \<Longrightarrow>
   join_str (gen (Some (Str p)) (map Str fs)) = Inr (spec_join (Some q) fs)"
proof (induction fs arbitrary: p q)
  case Nil
  then show ?case by simp
next
  case (Cons f fs)
  have others: "\<forall>g\<in>set fs. g \<noteq> ''/''"
    using Cons.prems by simp
  show ?case
  proof (cases "f = []")
    case True
    then show ?thesis
      using Cons.IH [OF Cons.prems(1,2,3) others] by simp
  next
    case False
    have same: "join_str (gen (Some (Str f)) (map Str fs)) = Inr (spec_join (Some f) fs)"
      using Cons.IH [OF False False refl others] .
    have e: "(last p = CHR ''/'') = ends_slash q"
      using Cons.prems by (simp add: ends_slash_def)
    have s: "(hd f = CHR ''/'') = starts_slash f"
      using False by (simp add: starts_slash_def)
    show ?thesis
    proof (cases "ends_slash q \<and> starts_slash f")
      case True
      then obtain t where f: "f = CHR ''/'' # t"
        using False by (cases f) (auto simp: starts_slash_def)
      have t: "t \<noteq> []"
        using Cons.prems(4) f by auto
      have lt: "last t = last f"
        using f t by simp
      have "join_str (gen (Some (Str t)) (map Str fs)) = Inr (spec_join (Some f) fs)"
        using Cons.IH [OF t False lt others] .
      then show ?thesis
        using True False Cons.prems(1) e s f by (simp add: junction_def)
    next
      case False
      then show ?thesis
        using \<open>f \<noteq> []\<close> Cons.prems(1) e s same by (auto simp: junction_def)
    qed
  qed
qed

lemma gen_None_agrees:
  "\<forall>f\<in>set fs. f \<noteq> ''/'' \<Longrightarrow> join_str (gen None (map Str fs)) = Inr (spec_join None fs)"
proof (induction fs)
  case Nil
  then show ?case by simp
next
  case (Cons f fs)
  show ?case
  proof (cases "f = []")
    case True
    then show ?thesis using Cons by simp
  next
    case False
    have "join_str (gen (Some (Str f)) (map Str fs)) = Inr (spec_join (Some f) fs)"
      using gen_Some_agrees [OF False False refl] Cons.prems by simp
    then show ?thesis using False by simp
  qed
qed

text \<open>
  On string fragments none of which is the bare slash \<^verbatim>\<open>"/"\<close>, \<^verbatim>\<open>urljoin\<close> returns
  what the specification's algorithm returns.
\<close>

lemma urljoin_agrees_with_spec:
  "\<forall>f\<in>set fs. f \<noteq> ''/'' \<Longrightarrow> urljoin (map Str fs) = Inr (spec_urljoin fs)"
  by (simp add: urljoin_def spec_urljoin_def gen_None_agrees)

text \<open>
  C1. The joiner is to put exactly one slash between consecutive fragments that are not
  empty, whatever slashes they carry. On the fragments \<^verbatim>\<open>"a/"\<close>, \<^verbatim>\<open>"/"\<close>,
  \<^verbatim>\<open>"/b"\<close> the specification's algorithm gives \<^verbatim>\<open>"a/b"\<close>, and \<^verbatim>\<open>urljoin\<close> returns
  \<^verbatim>\<open>"a//b"\<close>: the second fragment loses its slash, \<^verbatim>\<open>prev\<close> becomes the empty
  string, and the third fragment is emitted as if it were the first.
\<close>

theorem urljoin_bare_slash_doubles:
  "urljoin [Str ''a/'', Str ''/'', Str ''/b''] = Inr ''a//b''
   \<and> spec_urljoin [''a/'', ''/'', ''/b''] = ''a/b''"
  by (simp add: urljoin_def spec_urljoin_def junction_def ends_slash_def starts_slash_def)

lemma gen_junction_free:
  "p \<noteq> [] \<Longrightarrow> junction_free (p # nonempty fs) \<Longrightarrow>
   join_str (gen (Some (Str p)) (map Str fs)) =
     Inr (concat (map (\<lambda>f. ''/'' @ f) (nonempty fs)))"
proof (induction fs arbitrary: p)
  case Nil
  then show ?case by (simp add: nonempty_def)
next
  case (Cons f fs)
  show ?case
  proof (cases "f = []")
    case True
    then show ?thesis using Cons by (simp add: nonempty_def)
  next
    case False
    then have ne: "nonempty (f # fs) = f # nonempty fs"
      by (simp add: nonempty_def)
    have jf: "junction_free (f # nonempty fs)"
      and np: "last p \<noteq> CHR ''/''" and nf: "hd f \<noteq> CHR ''/''"
      using Cons.prems False by (auto simp: ne ends_slash_def starts_slash_def)
    have "join_str (gen (Some (Str f)) (map Str fs)) =
            Inr (concat (map (\<lambda>f. ''/'' @ f) (nonempty fs)))"
      using Cons.IH [OF False jf] .
    then show ?thesis
      using False Cons.prems(1) np nf by (simp add: ne)
  qed
qed

text \<open>
  C9, as stated: for a sequence of fragments that is not empty and has no slash at any
  junction, \<^verbatim>\<open>urljoin\<close> returns \<^verbatim>\<open>"/".join\<close> of the fragments. It fails on
  \<^verbatim>\<open>"a"\<close>, \<^verbatim>\<open>""\<close>, \<^verbatim>\<open>"b"\<close>: the empty fragment is skipped, so one slash is
  emitted where \<^verbatim>\<open>"/".join\<close> has two.
\<close>

theorem urljoin_slash_join_counterexample:
  "[''a'', '''', ''b''] \<noteq> [] \<and> junction_free [''a'', '''', ''b'']
   \<and> urljoin [Str ''a'', Str '''', Str ''b''] = Inr ''a/b''
   \<and> slash_join [''a'', '''', ''b''] = ''a//b''"
  by (simp add: urljoin_def ends_slash_def starts_slash_def)

text \<open>
  C9, amended: when the fragments that are not empty have no slash at any junction
  between them, \<^verbatim>\<open>urljoin\<close> returns exactly those fragments with a single \<^verbatim>\<open>/\<close>
  between each consecutive pair.
\<close>

theorem urljoin_junction_free:
  "junction_free (nonempty fs) \<Longrightarrow> urljoin (map Str fs) = Inr (slash_join (nonempty fs))"
proof (induction fs)
  case Nil
  then show ?case by (simp add: urljoin_def nonempty_def)
next
  case (Cons f fs)
  show ?case
  proof (cases "f = []")
    case True
    then show ?thesis using Cons by (simp add: urljoin_def nonempty_def)
  next
    case False
    then have ne: "nonempty (f # fs) = f # nonempty fs"
      by (simp add: nonempty_def)
    have "join_str (gen (Some (Str f)) (map Str fs)) =
            Inr (concat (map (\<lambda>f. ''/'' @ f) (nonempty fs)))"
      using gen_junction_free [OF False] Cons.prems ne by simp
    then show ?thesis
      using False by (simp add: urljoin_def ne slash_join_Cons)
  qed
qed

theorem urljoin_junction_free_witness:
  "junction_free (nonempty [''http://h'', '''', ''api'', ''v1''])
   \<and> urljoin (map Str [''http://h'', '''', ''api'', ''v1'']) = Inr ''http://h/api/v1''"
  using urljoin_junction_free [of "[''http://h'', '''', ''api'', ''v1'']"]
  by (simp add: nonempty_def ends_slash_def starts_slash_def)

section \<open>Properties of call\<close>



lemma dispatch_ignores_kwargs: "dispatch method u d kw = dispatch method u d []"
  by (simp add: dispatch_def)

lemma checked_response_ignores_kwargs:
  "checked_response T method u d statuses kw = checked_response T method u d statuses []"
  by (simp add: checked_response_def dispatch_ignores_kwargs [of _ u d kw])

lemma checked_canned_default:
  "\<not> raise_for_status r \<Longrightarrow> checked_response (canned r) method u d None kw = Inr r"
  by (simp add: checked_response_def canned_def)

lemma resolve_Str: "resolve (Str u) = Inr u"
  by (simp add: resolve_def)

text \<open>
  C2. A \<^verbatim>\<open>uri\<close> that is not a string is to be joined fragment by fragment. The code
  passes the whole sequence to \<^verbatim>\<open>urljoin\<close> as one part: for the list
  \<^verbatim>\<open>["http://h", "x"]\<close> the generator yields the list itself, the join raises
  \<^verbatim>\<open>TypeError\<close>, and no request is issued, with any transport and any other
  arguments. Joining the two elements gives \<^verbatim>\<open>"http://h/x"\<close>.
\<close>

theorem call_sequence_uri_raises:
  "call T method (Seq [''http://h'', ''x'']) data statuses kw = Inl TypeError
   \<and> issued method (Seq [''http://h'', ''x'']) data kw = Inl TypeError
   \<and> urljoin [Str ''http://h'', Str ''x''] = Inr ''http://h/x''"
  by (simp add: call_def issued_def resolve_def urljoin_def)

text \<open>
  The \<^verbatim>\<open>try\<close> statement hands a response on exactly when the transport returned
  it and the status check let it through: under the default policy (no set, or an empty
  one) when the status is not 4xx or 5xx, and otherwise when the status is in the set.
\<close>

lemma checked_response_passes:
  "checked_response T method u d statuses kw = Inr r \<longleftrightarrow>
     perform T (dispatch method u d kw) = Returned r \<and>
     (if statuses = None \<or> statuses = Some {} then \<not> raise_for_status r
      else status_code r \<in> the statuses)"
  by (auto simp add: checked_response_def split: outcome.splits option.splits sum.splits)

text \<open>
  Under the default policy a 4xx or 5xx response raises \<^verbatim>\<open>HTTPError\<close> with the
  numeric status and the first entry of the transport's table for it.
\<close>

lemma call_default_policy_failure:
  assumes "perform T (dispatch method u (data_or_empty data) kw) = Returned r"
    and "raise_for_status r"
    and "status_codes T (status_code r) = Some (phrase # ps)"
  shows "call T method (Str u) data None kw =
           Inl (ApiExn HTTPError (JNum (status_code r)) (JStr phrase) JNull)"
  using assms
  by (simp add: call_def resolve_def checked_response_def on_http_error_def reason_def)

text \<open>
  C3. A status outside a supplied set of acceptable statuses is to raise the module's
  \<^verbatim>\<open>HTTPError\<close> with the numeric code and the reason phrase. With the set
  \<^verbatim>\<open>{200}\<close> and a response of status 404, line 103 reads \<^verbatim>\<open>response.status\<close>
  and the call raises \<^verbatim>\<open>AttributeError\<close>; with no set, the same response raises
  \<^verbatim>\<open>HTTPError\<close> with code 404 and the phrase \<^verbatim>\<open>Not Found\<close>, through the handler on
  line 105, which reads \<^verbatim>\<open>status_code\<close>.
\<close>

theorem call_explicit_statuses_attribute_error:
  "call (canned missing_response) method (Str u) data (Some {200}) kw = Inl AttributeError
   \<and> call (canned missing_response) method (Str u) data None kw =
     Inl (ApiExn HTTPError (JNum 404) (JStr ''Not Found'') JNull)"
  by (simp add: call_def resolve_def checked_response_def canned_def missing_response_def
      raise_for_status_def on_http_error_def reason_def phrases_def)

text \<open>
  C4. When the response has passed the \<^verbatim>\<open>try\<close> statement and its decoded JSON is a
  mapping with an \<^verbatim>\<open>errors\<close> key whose value is a list beginning with a mapping,
  \<^verbatim>\<open>call\<close> raises \<^verbatim>\<open>APIError\<close> with the \<^verbatim>\<open>code\<close> and \<^verbatim>\<open>details\<close> of that
  first element (\<^verbatim>\<open>None\<close> for a field it lacks) and the whole decoded JSON attached.
\<close>

theorem call_errors_payload:
  assumes "resolve uri = Inr u"
    and "checked_response T method u (data_or_empty data) statuses kw = Inr r"
    and "json_body r = Some (JObj m)"
    and "map_of m ''errors'' = Some (JArr (JObj e # es))"
  shows "call T method uri data statuses kw =
           Inl (ApiExn APIError (dict_get e ''code'') (dict_get e ''details'') (JObj m))"
  using assms by (simp add: call_def classify_def)

theorem call_errors_payload_witness:
  "call (canned errors_response) ''GET'' (Str ''http://h/x'') None None [] =
     Inl (ApiExn APIError (JStr ''X'') (JStr ''Y'')
       (JObj [(''errors'', JArr [JObj [(''code'', JStr ''X''), (''details'', JStr ''Y'')]])]))"
proof -
  have 1: "checked_response (canned errors_response) ''GET'' ''http://h/x''
             (data_or_empty None) None [] = Inr errors_response"
    by (simp add: checked_canned_default raise_for_status_def errors_response_def)
  have 2: "json_body errors_response = Some (JObj [(''errors'',
             JArr [JObj [(''code'', JStr ''X''), (''details'', JStr ''Y'')]])])"
    by (simp add: errors_response_def)
  have 3: "map_of [(''errors'', JArr [JObj [(''code'', JStr ''X''), (''details'', JStr ''Y'')]])]
             ''errors'' = Some (JArr (JObj [(''code'', JStr ''X''), (''details'', JStr ''Y'')] # []))"
    by simp
  show ?thesis
    using call_errors_payload [OF resolve_Str 1 2 3] by (simp add: dict_get_def)
qed

text \<open>
  C5. When the response has passed the \<^verbatim>\<open>try\<close> statement and its decoded JSON is a
  mapping without an \<^verbatim>\<open>errors\<close> key: without a \<^verbatim>\<open>data\<close> key, \<^verbatim>\<open>call\<close> raises
  \<^verbatim>\<open>BadResponseError\<close> with the fixed details and the JSON attached; with a
  \<^verbatim>\<open>data\<close> key, it returns the decoded mapping unchanged.
\<close>

theorem call_data_field:
  assumes "resolve uri = Inr u"
    and "checked_response T method u (data_or_empty data) statuses kw = Inr r"
    and "json_body r = Some (JObj m)"
    and "map_of m ''errors'' = None"
  shows "(map_of m ''data'' = None \<longrightarrow>
            call T method uri data statuses kw =
              Inl (ApiExn BadResponseError JNull
                (JStr ''Did not receive a data field in a non-error response.'') (JObj m)))
       \<and> (map_of m ''data'' \<noteq> None \<longrightarrow>
            call T method uri data statuses kw = Inr (JObj m))"
  using assms by (auto simp add: call_def classify_def)

theorem call_data_field_witness:
  "call (canned empty_response) ''GET'' (Str ''http://h/x'') None None [] =
     Inl (ApiExn BadResponseError JNull
       (JStr ''Did not receive a data field in a non-error response.'') (JObj []))
   \<and> call (canned data_response) ''GET'' (Str ''http://h/x'') None None [] =
     Inr (JObj [(''data'', JObj [(''id'', JNum 7)])])"
proof -
  have e1: "checked_response (canned empty_response) ''GET'' ''http://h/x''
              (data_or_empty None) None [] = Inr empty_response"
    by (simp add: checked_canned_default raise_for_status_def empty_response_def)
  have e2: "json_body empty_response = Some (JObj [])"
    by (simp add: empty_response_def)
  have e3: "map_of ([] :: (string \<times> json) list) ''errors'' = None"
    by simp
  have d1: "checked_response (canned data_response) ''GET'' ''http://h/x''
              (data_or_empty None) None [] = Inr data_response"
    by (simp add: checked_canned_default raise_for_status_def data_response_def)
  have d2: "json_body data_response = Some (JObj [(''data'', JObj [(''id'', JNum 7)])])"
    by (simp add: data_response_def)
  have d3: "map_of [(''data'', JObj [(''id'', JNum 7)])] ''errors'' = None"
    by simp
  show ?thesis
    using call_data_field [OF resolve_Str e1 e2 e3] call_data_field [OF resolve_Str d1 d2 d3]
    by simp
qed

text \<open>
  C6. The keyword arguments of \<^verbatim>\<open>call\<close> are documented as passed to the transport.
  Neither branch of the dispatch passes them: the result of \<^verbatim>\<open>call\<close> and the
  transport call it issues are the same with and without them, and with
  \<^verbatim>\<open>timeout=5\<close> the transport receives the URL and \<^verbatim>\<open>json\<close> only.
\<close>

theorem call_drops_kwargs:
  "call T method uri data statuses kw = call T method uri data statuses []
   \<and> issued method uri data kw = issued method uri data []
   \<and> issued ''GET'' (Str ''http://h/x'') None [(''timeout'', JNum 5)] =
       Inr (Helper ''GET'' ''http://h/x'' [(''json'', JObj [])])"
proof -
  have "call T method uri data statuses kw = call T method uri data statuses []"
  proof (cases "resolve uri")
    case (Inl e)
    then show ?thesis by (simp add: call_def)
  next
    case (Inr u)
    then show ?thesis
      using checked_response_ignores_kwargs [of T _ u "data_or_empty data" statuses kw]
      by (simp add: call_def)
  qed
  moreover have "issued method uri data kw = issued method uri data []"
  proof (cases "resolve uri")
    case (Inl e)
    then show ?thesis by (simp add: issued_def)
  next
    case (Inr u)
    then show ?thesis
      using dispatch_ignores_kwargs [of _ u "data_or_empty data" kw]
      by (simp add: issued_def)
  qed
  moreover have "issued ''GET'' (Str ''http://h/x'') None [(''timeout'', JNum 5)] =
       Inr (Helper ''GET'' ''http://h/x'' [(''json'', JObj [])])"
    by (simp add: issued_def resolve_def dispatch_def request_methods_def data_or_empty_def)
  ultimately show ?thesis by simp
qed







text \<open>
  C8. When the response has passed the \<^verbatim>\<open>try\<close> statement and its body does not
  parse as JSON, \<^verbatim>\<open>call\<close> raises \<^verbatim>\<open>BadJSONError\<close> with the code \<^verbatim>\<open>'2608'\<close> and
  the message \<^verbatim>\<open>API didn't return valid JSON.\<close>
\<close>

theorem call_bad_json:
  assumes "resolve uri = Inr u"
    and "checked_response T method u (data_or_empty data) statuses kw = Inr r"
    and "json_body r = None"
  shows "call T method uri data statuses kw =
           Inl (ApiExn BadJSONError (JStr ''2608'') (JStr ''API didn't return valid JSON.'')
             JNull)"
  using assms by (simp add: call_def)

theorem call_bad_json_witness:
  "call (canned html_response) ''GET'' (Str ''http://h/x'') None None [] =
     Inl (ApiExn BadJSONError (JStr ''2608'') (JStr ''API didn't return valid JSON.'') JNull)"
proof -
  have 1: "checked_response (canned html_response) ''GET'' ''http://h/x''
             (data_or_empty None) None [] = Inr html_response"
    by (simp add: checked_canned_default raise_for_status_def html_response_def)
  have 2: "json_body html_response = None"
    by (simp add: html_response_def)
  show ?thesis
    using call_bad_json [OF resolve_Str 1 2] by simp
qed

section \<open>The exception hierarchy\<close>

lemma mro_APIError: "mro APIError = [APIError]"
  by (simp add: mro.simps [of APIError])

lemma mro_BadResponseError: "mro BadResponseError = [BadResponseError, APIError]"
  by (simp add: mro.simps [of BadResponseError] mro_APIError)

lemma mro_BadJSONError: "mro BadJSONError = [BadJSONError, BadResponseError, APIError]"
  by (simp add: mro.simps [of BadJSONError] mro_BadResponseError)

text \<open>
  C10. \<^verbatim>\<open>BadJSONError\<close> is declared with base \<^verbatim>\<open>BadResponseError\<close>, whose base is
  \<^verbatim>\<open>APIError\<close>; a handler for \<^verbatim>\<open>BadResponseError\<close> catches a \<^verbatim>\<open>BadJSONError\<close>, and so
  does every handler that catches \<^verbatim>\<open>BadResponseError\<close>.
\<close>

theorem bad_json_is_bad_response:
  "base BadJSONError = Some BadResponseError \<and> base BadResponseError = Some APIError
   \<and> catches BadResponseError BadJSONError
   \<and> (\<forall>handler. catches handler BadResponseError \<longrightarrow> catches handler BadJSONError)"
  by (simp add: catches_def mro_BadJSONError mro_BadResponseError)

theorem bad_json_is_bad_response_witness:
  "catches APIError BadResponseError \<and> catches APIError BadJSONError"
  using bad_json_is_bad_response by (simp add: catches_def mro_BadResponseError)

end
